theory Spec2Isabelle
  imports Main "HOL-Library.Sublist" "HOL-Library.Multiset"
begin

section \<open>Python values and exceptions\<close>

text \<open>
  The values a decoded JSON body can hold, which are also the values the handlers pass
  around untyped (\<open>Dict[str, Any]\<close>). JSON numbers are integers here: a number with a
  fraction or an exponent is a float, which is outside this embedding. Strings are byte
  strings; Python's \<open>None\<close> is \<open>PNone\<close>.
\<close>

datatype pyval =
    PNone
  | PBool bool
  | PInt int
  | PStr string
  | PList "pyval list"
  | PDict "(string \<times> pyval) list"

text \<open>
  The exceptions that travel through the two source files. The detail of an
  \<open>HTTPException\<close> is either a literal of the source or \<open>str(e)\<close> of a caught exception,
  kept symbolic.
\<close>

datatype exn =
    IntegrityError
  | OverflowError
  | ProgrammingError
  | AttributeError
  | ValueError string
  | HTTPException nat detail
and detail =
    Detail string
  | StrOf exn

text \<open>Python's truth value, as \<open>not x\<close> tests it.\<close>

fun truthy :: "pyval \<Rightarrow> bool" where
  "truthy PNone = False"
| "truthy (PBool b) = b"
| "truthy (PInt n) = (n \<noteq> 0)"
| "truthy (PStr s) = (s \<noteq> [])"
| "truthy (PList xs) = (xs \<noteq> [])"
| "truthy (PDict kvs) = (kvs \<noteq> [])"

text \<open>\<open>payload.get(key)\<close>: the value, or \<open>None\<close> for a missing key.\<close>

definition dict_get :: "(string \<rightharpoonup> pyval) \<Rightarrow> string \<Rightarrow> pyval" where
  "dict_get d k = (case d k of None \<Rightarrow> PNone | Some v \<Rightarrow> v)"

text \<open>
  The sqlite3 module binds a Python \<open>int\<close> as a 64-bit SQLite INTEGER and raises
  \<open>OverflowError\<close> for an \<open>int\<close> outside that range.
\<close>

definition int64 :: "int \<Rightarrow> bool" where
  "int64 n = (- (2 ^ 63) \<le> n \<and> n < 2 ^ 63)"

text \<open>Decimal rendering of an integer (\<open>str(n)\<close>, and SQLite's INTEGER to TEXT cast).\<close>

definition digit_char :: "nat \<Rightarrow> char" where
  "digit_char d = ''0123456789'' ! d"

fun digits :: "nat \<Rightarrow> string" where
  "digits n = (if n < 10 then [digit_char n] else digits (n div 10) @ [digit_char (n mod 10)])"

declare digits.simps [simp del]

definition str_int :: "int \<Rightarrow> string" where
  "str_int n = (if n < 0 then CHR ''-'' # digits (nat (- n)) else digits (nat n))"

section \<open>The store (db.py)\<close>

text \<open>
  One row of the table \<open>error_logs\<close>. \<open>zap_name\<close> and \<open>error_message\<close> are
  \<open>TEXT NOT NULL\<close>, \<open>explanation\<close> is nullable. \<open>timestamp\<close> is the reading of
  \<open>CURRENT_TIMESTAMP\<close>, a clock with a resolution of one second, as a number of seconds:
  no statement of the program ever writes the column, so it always holds the default.
  \<open>status\<close> is free text with default \<open>'unresolved'\<close>.
\<close>

record error_log =
  log_id :: int
  zap_name :: string
  error_message :: string
  explanation :: "string option"
  timestamp :: nat
  status :: string

text \<open>
  The database file: the rows in rowid order, and the \<open>sqlite_sequence\<close> entry that
  \<open>AUTOINCREMENT\<close> keeps (the largest rowid ever handed out, which survives
  \<open>DELETE\<close>). The counter is unbounded here; SQLite's own limit of \<open>2^63 - 1\<close> rowids
  is out of reach of any run of the program.
\<close>

record database =
  error_logs :: "error_log list"
  sqlite_sequence :: int

text \<open>\<open>CREATE TABLE IF NOT EXISTS\<close>: a missing table is created empty, an existing one is kept.\<close>

definition init_db :: "database option \<Rightarrow> database" where
  "init_db file = (case file of
      None \<Rightarrow> \<lparr>error_logs = [], sqlite_sequence = 0\<rparr>
    | Some db \<Rightarrow> db)"

text \<open>\<open>UNIQUE(zap_name, error_message, timestamp)\<close>: the new triple is already stored.\<close>

definition unique_conflict :: "database \<Rightarrow> string \<Rightarrow> string \<Rightarrow> nat \<Rightarrow> bool" where
  "unique_conflict db z m t =
     (\<exists>r \<in> set (error_logs db). zap_name r = z \<and> error_message r = m \<and> timestamp r = t)"

text \<open>\<open>AUTOINCREMENT\<close>: one more than the largest rowid that is or ever was in the table.\<close>

definition new_rowid :: "database \<Rightarrow> int" where
  "new_rowid db = fold max (map log_id (error_logs db)) (sqlite_sequence db) + 1"

text \<open>
  \<open>insert_error_log\<close> at clock reading \<open>now\<close>. The \<open>INSERT\<close> names three columns, so
  \<open>timestamp\<close> and \<open>status\<close> take their defaults. A violated constraint raises
  \<open>sqlite3.IntegrityError\<close>, the statement changes nothing, and the \<open>except\<close> clause
  returns \<open>-1\<close>; otherwise the result is \<open>cursor.lastrowid\<close>.
\<close>

definition insert_error_log ::
  "database \<Rightarrow> nat \<Rightarrow> string \<Rightarrow> string \<Rightarrow> string option \<Rightarrow> database \<times> int" where
  "insert_error_log db now z m e =
     (if unique_conflict db z m now then (db, - 1)
      else
        let lastrowid = new_rowid db;
            row = \<lparr>log_id = lastrowid, zap_name = z, error_message = m, explanation = e,
                   timestamp = now, status = ''unresolved''\<rparr>
        in (db\<lparr>error_logs := error_logs db @ [row], sqlite_sequence := lastrowid\<rparr>, lastrowid))"

text \<open>
  \<open>ORDER BY timestamp DESC\<close>. The sort is stable, so rows of one second stay in rowid
  order; SQL leaves their order open, and nothing proved below depends on it.
\<close>

definition order_by_timestamp_desc :: "error_log list \<Rightarrow> error_log list" where
  "order_by_timestamp_desc rows = sort_key (\<lambda>r. - int (timestamp r)) rows"

text \<open>
  \<open>get_all_logs\<close>. The limit is bound as an SQLite INTEGER; SQLite reads a negative
  \<open>LIMIT\<close> as no limit at all. Each returned dictionary has the six keys of the
  \<open>SELECT\<close>, which are the fields of the record.
\<close>

definition get_all_logs :: "database \<Rightarrow> int \<Rightarrow> exn + error_log list" where
  "get_all_logs db limit =
     (if \<not> int64 limit then Inl OverflowError
      else
        let rows = order_by_timestamp_desc (error_logs db)
        in Inr (if limit < 0 then rows else take (nat limit) rows))"

definition valid_statuses :: "string list" where
  "valid_statuses = [''unresolved'', ''resolved'', ''dismissed'']"

text \<open>
  \<open>update_log_status\<close>. The status is checked first; then the \<open>UPDATE\<close> binds the id
  and sets the status of every row with that id. \<open>cursor.rowcount\<close> counts the rows the
  \<open>WHERE\<close> clause matched, whether or not their status changed.
\<close>

definition update_log_status :: "database \<Rightarrow> int \<Rightarrow> string \<Rightarrow> exn + database \<times> bool" where
  "update_log_status db i new_status =
     (if new_status \<notin> set valid_statuses then
        Inl (ValueError
          ''Invalid status. Must be one of: ['unresolved', 'resolved', 'dismissed']'')
      else if \<not> int64 i then Inl OverflowError
      else
        let rowcount = length (filter (\<lambda>r. log_id r = i) (error_logs db));
            rows = map (\<lambda>r. if log_id r = i then r\<lparr>status := new_status\<rparr> else r) (error_logs db)
        in Inr (db\<lparr>error_logs := rows\<rparr>, rowcount > 0))"

text \<open>\<open>clear_all_logs\<close>: \<open>DELETE FROM error_logs\<close>; \<open>cursor.rowcount\<close> is the number of rows deleted.\<close>

definition clear_all_logs :: "database \<Rightarrow> database \<times> int" where
  "clear_all_logs db = (db\<lparr>error_logs := []\<rparr>, int (length (error_logs db)))"

definition get_logs_by_status :: "database \<Rightarrow> string \<Rightarrow> error_log list" where
  "get_logs_by_status db s =
     order_by_timestamp_desc (filter (\<lambda>r. status r = s) (error_logs db))"

section \<open>The classifier (main.py)\<close>

text \<open>
  \<open>str.lower\<close>: the letters A to Z become a to z and every other byte is kept. Python
  lowers letters outside ASCII as well; the patterns of the table are ASCII and no lowered
  letter from outside ASCII completes an occurrence of one of them, so the match is the same.
\<close>

definition lower_char :: "char \<Rightarrow> char" where
  "lower_char c =
     (case map_of (zip ''ABCDEFGHIJKLMNOPQRSTUVWXYZ'' ''abcdefghijklmnopqrstuvwxyz'') c of
        None \<Rightarrow> c
      | Some l \<Rightarrow> l)"

definition lower :: "string \<Rightarrow> string" where
  "lower s = map lower_char s"

text \<open>\<open>pattern in text\<close> on strings: \<open>pattern\<close> occurs in \<open>text\<close> as a contiguous run.\<close>

fun startswith :: "string \<Rightarrow> string \<Rightarrow> bool" where
  "startswith txt [] = True"
| "startswith [] (p # ps) = False"
| "startswith (c # cs) (p # ps) = (c = p \<and> startswith cs ps)"

fun str_in :: "string \<Rightarrow> string \<Rightarrow> bool" where
  "str_in pattern [] = (pattern = [])"
| "str_in pattern (c # cs) = (startswith (c # cs) pattern \<or> str_in pattern cs)"

text \<open>The dictionary \<open>ERROR_EXPLANATIONS\<close>, in insertion order, which is the order \<open>items()\<close> gives.\<close>

definition ERROR_EXPLANATIONS :: "(string \<times> string) list" where
  "ERROR_EXPLANATIONS =
     [(''not found'', ''Resource was renamed or deleted''),
      (''missing required field'', ''Check if field names changed''),
      (''auth expired'', ''Reauthorization needed''),
      (''rate limit'', ''API rate limit reached''),
      (''invalid data type'', ''Check field mappings'')]"

text \<open>The \<open>for\<close> loop of \<open>explain_error\<close> over the remaining items.\<close>

fun explain_loop :: "(string \<times> string) list \<Rightarrow> string \<Rightarrow> string" where
  "explain_loop [] error_lower = ''No specific explanation available''"
| "explain_loop ((pattern, expl) # items) error_lower =
     (if str_in pattern error_lower then expl else explain_loop items error_lower)"

definition explain_error :: "string \<Rightarrow> string" where
  "explain_error error_msg = explain_loop ERROR_EXPLANATIONS (lower error_msg)"

section \<open>The ingestion endpoints (main.py)\<close>

text \<open>
  A response: its status code and its JSON content. A handler either returns one or raises;
  FastAPI answers an \<open>HTTPException\<close> with its status code and any other exception with 500.
\<close>

datatype response = Response nat pyval

fun status_code :: "exn + response \<Rightarrow> nat" where
  "status_code (Inr (Response c body)) = c"
| "status_code (Inl (HTTPException c d)) = c"
| "status_code (Inl e) = 500"

text \<open>
  The webhook handler calls \<open>explain_error\<close> and \<open>insert_error_log\<close> on unvalidated
  values. \<open>error_msg.lower()\<close> exists on strings only. A bound parameter becomes the
  text the \<open>TEXT\<close> column stores: a string as it is, an \<open>int\<close> (and so a \<open>bool\<close>) in
  decimal, \<open>None\<close> as NULL; a list or a dictionary cannot be bound.
\<close>

fun call_explain_error :: "pyval \<Rightarrow> exn + string" where
  "call_explain_error (PStr s) = Inr (explain_error s)"
| "call_explain_error v = Inl AttributeError"

fun bind_text :: "pyval \<Rightarrow> exn + string option" where
  "bind_text PNone = Inr None"
| "bind_text (PBool b) = Inr (Some (if b then ''1'' else ''0''))"
| "bind_text (PInt n) = (if int64 n then Inr (Some (str_int n)) else Inl OverflowError)"
| "bind_text (PStr s) = Inr (Some s)"
| "bind_text (PList xs) = Inl ProgrammingError"
| "bind_text (PDict kvs) = Inl ProgrammingError"

text \<open>
  A NULL in a \<open>NOT NULL\<close> column is an \<open>IntegrityError\<close> as well, so it also ends in \<open>-1\<close>.
\<close>

definition call_insert_error_log ::
  "database \<Rightarrow> nat \<Rightarrow> pyval \<Rightarrow> pyval \<Rightarrow> pyval \<Rightarrow> exn + database \<times> int" where
  "call_insert_error_log db now zv mv ev =
     (case bind_text zv of Inl x \<Rightarrow> Inl x | Inr z \<Rightarrow>
      case bind_text mv of Inl x \<Rightarrow> Inl x | Inr m \<Rightarrow>
      case bind_text ev of Inl x \<Rightarrow> Inl x | Inr e \<Rightarrow>
        (case (z, m) of
           (Some zt, Some mt) \<Rightarrow> Inr (insert_error_log db now zt mt e)
         | _ \<Rightarrow> Inr (db, - 1)))"

text \<open>The body of the \<open>try\<close> block of \<open>receive_zapier_payload\<close>.\<close>

definition zapier_try :: "database \<Rightarrow> nat \<Rightarrow> (string \<rightharpoonup> pyval) \<Rightarrow> exn + database \<times> response" where
  "zapier_try db now payload =
     (let zap_name' = dict_get payload ''zap_name'';
          error_message' = dict_get payload ''error_message'';
          timestamp' = dict_get payload ''timestamp''
      in
        if \<not> truthy zap_name' \<or> \<not> truthy error_message' then
          Inl (HTTPException 400 (Detail ''Missing zap_name or error_message''))
        else
          case call_explain_error error_message' of Inl x \<Rightarrow> Inl x | Inr explanation' \<Rightarrow>
          case call_insert_error_log db now zap_name' error_message' (PStr explanation') of
            Inl x \<Rightarrow> Inl x
          | Inr (db', log_id') \<Rightarrow>
              if log_id' = - 1 then
                Inr (db', Response 409 (PDict [(''detail'', PStr ''Duplicate log entry'')]))
              else Inr (db', Response 201 (PDict [(''id'', PInt log_id')])))"

text \<open>
  \<open>receive_zapier_payload\<close>: \<open>except Exception as e\<close> catches whatever the block raises,
  an \<open>HTTPException\<close> included (it derives from \<open>Exception\<close>), and raises
  \<open>HTTPException(500, str(e))\<close>. Every exception of the block is raised before the
  database is written.
\<close>

definition receive_zapier_payload ::
  "database \<Rightarrow> nat \<Rightarrow> (string \<rightharpoonup> pyval) \<Rightarrow> database \<times> (exn + response)" where
  "receive_zapier_payload db now payload =
     (case zapier_try db now payload of
        Inl e \<Rightarrow> (db, Inl (HTTPException 500 (StrOf e)))
      | Inr (db', r) \<Rightarrow> (db', Inr r))"

text \<open>The request model of \<open>POST /api/errors\<close>: two strings and an optional string.\<close>

datatype ErrorLogCreate = ErrorLogCreate string string "string option"

fun create_error_log ::
  "database \<Rightarrow> nat \<Rightarrow> ErrorLogCreate \<Rightarrow> database \<times> (exn + response)" where
  "create_error_log db now (ErrorLogCreate z m e) =
     (let expl = (case e of
                    None \<Rightarrow> explain_error m
                  | Some x \<Rightarrow> if x \<noteq> [] then x else explain_error m);
          (db', log_id') = insert_error_log db now z m (Some expl)
      in
        if log_id' = - 1 then (db', Inl (HTTPException 409 (Detail ''Duplicate log entry'')))
        else (db', Inr (Response 201 (PDict [(''id'', PInt log_id')]))))"

section \<open>The CSV export (main.py)\<close>

text \<open>
  \<open>dict(row)\<close>: the six columns of the \<open>SELECT\<close> in order. \<open>strftime\<close> is SQLite's
  rendering of a timestamp as \<open>YYYY-MM-DD HH:MM:SS\<close>, a parameter of the model.
\<close>

datatype sqlval = Null | Integer int | Text string

definition dict_of_row :: "(nat \<Rightarrow> string) \<Rightarrow> error_log \<Rightarrow> (string \<times> sqlval) list" where
  "dict_of_row strftime r =
     [(''id'', Integer (log_id r)),
      (''zap_name'', Text (zap_name r)),
      (''error_message'', Text (error_message r)),
      (''explanation'', (case explanation r of None \<Rightarrow> Null | Some x \<Rightarrow> Text x)),
      (''timestamp'', Text (strftime (timestamp r))),
      (''status'', Text (status r))]"

text \<open>
  The \<open>csv\<close> module with its default dialect: fields joined by commas, a field quoted
  when it holds a comma, a quote or a line break (quotes doubled), a row of one empty
  field written as two quotes, every row ended by CR LF. \<open>None\<close> is written as the
  empty string.
\<close>

definition csv_str :: "sqlval \<Rightarrow> string" where
  "csv_str v = (case v of Null \<Rightarrow> [] | Integer n \<Rightarrow> str_int n | Text s \<Rightarrow> s)"

definition csv_field :: "string \<Rightarrow> string" where
  "csv_field f =
     (if \<exists>c \<in> set f. c = CHR '','' \<or> c = CHR 0x22 \<or> c = CHR 0x0D \<or> c = CHR 0x0A
      then CHR 0x22 # concat (map (\<lambda>c. if c = CHR 0x22 then [c, c] else [c]) f) @ [CHR 0x22]
      else f)"

fun join :: "string \<Rightarrow> string list \<Rightarrow> string" where
  "join sep [] = []"
| "join sep [f] = f"
| "join sep (f # g # fs) = f @ sep @ join sep (g # fs)"

definition csv_writerow :: "string list \<Rightarrow> string" where
  "csv_writerow row =
     (if row = [[]] then [CHR 0x22, CHR 0x22] else join '','' (map csv_field row))
     @ [CHR 0x0D, CHR 0x0A]"

text \<open>
  \<open>DictWriter\<close>: a row is the values of the field names in order. Every dictionary
  written here has the keys of the first one, so no key is ever outside the field names.
\<close>

definition dict_to_list :: "string list \<Rightarrow> (string \<times> sqlval) list \<Rightarrow> string list" where
  "dict_to_list fieldnames rowdict =
     map (\<lambda>k. case map_of rowdict k of None \<Rightarrow> [] | Some v \<Rightarrow> csv_str v) fieldnames"

text \<open>\<open>logs[0].keys() if logs else []\<close>.\<close>

definition csv_fieldnames :: "(string \<times> sqlval) list list \<Rightarrow> string list" where
  "csv_fieldnames logs = (case logs of [] \<Rightarrow> [] | d # ds \<Rightarrow> map fst d)"

text \<open>The logs an export or a listing runs over: \<open>if status: ... else: ...\<close>.\<close>

definition select_logs :: "database \<Rightarrow> string option \<Rightarrow> exn + error_log list" where
  "select_logs db status_q =
     (case status_q of
        None \<Rightarrow> get_all_logs db 1000
      | Some s \<Rightarrow> if s \<noteq> [] then Inr (get_logs_by_status db s) else get_all_logs db 1000)"

text \<open>
  \<open>export_logs\<close>: the body of the streamed response. The file name in the
  \<open>Content-Disposition\<close> header reads the wall clock and is left out.
\<close>

definition export_logs ::
  "(nat \<Rightarrow> string) \<Rightarrow> database \<Rightarrow> string option \<Rightarrow> string \<Rightarrow> exn + string" where
  "export_logs strftime db status_q format =
     (case select_logs db status_q of
        Inl x \<Rightarrow> Inl x
      | Inr rows \<Rightarrow>
          let logs = map (dict_of_row strftime) rows in
          if format = ''csv'' then
            let fieldnames = csv_fieldnames logs
            in Inr (csv_writerow fieldnames
                    @ concat (map (\<lambda>d. csv_writerow (dict_to_list fieldnames d)) logs))
          else Inl (HTTPException 400 (Detail ''Unsupported export format'')))"

section \<open>Reachable stores\<close>

text \<open>
  The stores the program can be in: the freshly created table, and whatever the three
  writing operations of db.py make of a reachable store, with any arguments and at any
  clock reading.
\<close>

inductive reachable :: "database \<Rightarrow> bool" where
  reach_init: "reachable (init_db None)"
| reach_insert: "reachable db \<Longrightarrow> reachable (fst (insert_error_log db now z m e))"
| reach_update: "reachable db \<Longrightarrow> update_log_status db i s = Inr (db', b) \<Longrightarrow> reachable db'"
| reach_clear: "reachable db \<Longrightarrow> reachable (fst (clear_all_logs db))"

text \<open>The key of the uniqueness constraint.\<close>

definition unique_key :: "error_log \<Rightarrow> string \<times> string \<times> nat" where
  "unique_key r = (zap_name r, error_message r, timestamp r)"

section \<open>The classifier finds the first matching rule\<close>

text \<open>
  \<open>startswith\<close> and \<open>str_in\<close> compute the prefix and the contiguous-sublist relations of
  the list library, so \<open>str_in p s\<close> holds exactly when \<open>s = xs @ p @ ys\<close> for some
  \<open>xs\<close> and \<open>ys\<close>.
\<close>

lemma startswith_iff: "startswith s p \<longleftrightarrow> prefix p s"
  by (induction s p rule: startswith.induct) auto

lemma str_in_iff: "str_in p s \<longleftrightarrow> sublist p s"
proof (induction s)
  case Nil
  then show ?case by simp
next
  case (Cons c cs)
  then show ?case
    by (cases p) (simp_all add: startswith_iff sublist_Cons_right)
qed

text \<open>The loop returns the explanation of the first item whose pattern occurs, if any.\<close>

lemma explain_loop_find:
  "explain_loop items s =
     (case find (\<lambda>item. str_in (fst item) s) items of
        None \<Rightarrow> ''No specific explanation available''
      | Some item \<Rightarrow> snd item)"
  by (induction items s rule: explain_loop.induct) simp_all

lemma explain_loop_first_match:
  "(\<exists>i < length items.
      sublist (fst (items ! i)) s \<and>
      (\<forall>j < i. \<not> sublist (fst (items ! j)) s) \<and>
      explain_loop items s = snd (items ! i))
   \<or> ((\<forall>i < length items. \<not> sublist (fst (items ! i)) s) \<and>
       explain_loop items s = ''No specific explanation available'')"
proof (cases "find (\<lambda>item. str_in (fst item) s) items")
  case None
  then have "\<forall>item \<in> set items. \<not> sublist (fst item) s"
    by (auto simp: find_None_iff str_in_iff)
  then have "\<forall>i < length items. \<not> sublist (fst (items ! i)) s"
    by simp
  with None show ?thesis
    by (simp add: explain_loop_find)
next
  case (Some item)
  then obtain i where "i < length items" "str_in (fst (items ! i)) s" "item = items ! i"
    "\<forall>j < i. \<not> str_in (fst (items ! j)) s"
    by (auto simp: find_Some_iff)
  with Some show ?thesis
    by (auto simp: explain_loop_find str_in_iff)
qed

text \<open>
  C2. \<open>explain_error\<close> lowercases its input and scans the rule table in order: either
  some rule \<open>i\<close> has a pattern that occurs in the lowercased input, no earlier rule has
  one, and the result is the explanation of rule \<open>i\<close>; or no pattern occurs and the result
  is exactly \<open>No specific explanation available\<close>. The two examples of the specification
  evaluate as stated.
\<close>

theorem explain_error_first_match:
  "((\<exists>i < length ERROR_EXPLANATIONS.
        sublist (fst (ERROR_EXPLANATIONS ! i)) (lower error_msg) \<and>
        (\<forall>j < i. \<not> sublist (fst (ERROR_EXPLANATIONS ! j)) (lower error_msg)) \<and>
        explain_error error_msg = snd (ERROR_EXPLANATIONS ! i))
     \<or> ((\<forall>i < length ERROR_EXPLANATIONS. \<not> sublist (fst (ERROR_EXPLANATIONS ! i)) (lower error_msg)) \<and>
         explain_error error_msg = ''No specific explanation available''))
   \<and> explain_error ''Auth Expired for connection'' = ''Reauthorization needed''
   \<and> explain_error ''some unknown failure'' = ''No specific explanation available''"
proof (intro conjI)
  show "(\<exists>i < length ERROR_EXPLANATIONS.
        sublist (fst (ERROR_EXPLANATIONS ! i)) (lower error_msg) \<and>
        (\<forall>j < i. \<not> sublist (fst (ERROR_EXPLANATIONS ! j)) (lower error_msg)) \<and>
        explain_error error_msg = snd (ERROR_EXPLANATIONS ! i))
     \<or> ((\<forall>i < length ERROR_EXPLANATIONS. \<not> sublist (fst (ERROR_EXPLANATIONS ! i)) (lower error_msg)) \<and>
         explain_error error_msg = ''No specific explanation available'')"
    unfolding explain_error_def by (rule explain_loop_first_match)
next
  show "explain_error ''Auth Expired for connection'' = ''Reauthorization needed''"
    by (simp add: explain_error_def ERROR_EXPLANATIONS_def lower_def lower_char_def)
next
  show "explain_error ''some unknown failure'' = ''No specific explanation available''"
    by (simp add: explain_error_def ERROR_EXPLANATIONS_def lower_def lower_char_def)
qed

text \<open>
  An input in which two patterns occur (\<open>rate limit\<close> and \<open>not found\<close>, after
  lowercasing): by C2 the rule that comes first in the table decides.
\<close>

theorem explain_error_first_match_witness:
  "explain_error ''Rate Limit hit: zap NOT FOUND'' = ''Resource was renamed or deleted''"
proof -
  let ?msg = "''Rate Limit hit: zap NOT FOUND''"
  have first: "sublist (fst (ERROR_EXPLANATIONS ! 0)) (lower ?msg)"
    by (simp add: ERROR_EXPLANATIONS_def lower_def lower_char_def flip: str_in_iff)
  from explain_error_first_match [of ?msg] consider
    i where "i < length ERROR_EXPLANATIONS"
      "\<forall>j < i. \<not> sublist (fst (ERROR_EXPLANATIONS ! j)) (lower ?msg)"
      "explain_error ?msg = snd (ERROR_EXPLANATIONS ! i)"
    | "\<forall>i < length ERROR_EXPLANATIONS. \<not> sublist (fst (ERROR_EXPLANATIONS ! i)) (lower ?msg)"
    by blast
  then show ?thesis
  proof cases
    case 1
    with first have "i = 0"
      by (cases i) auto
    with 1(3) show ?thesis
      by (simp add: ERROR_EXPLANATIONS_def)
  next
    case 2
    moreover have "0 < length ERROR_EXPLANATIONS"
      by (simp add: ERROR_EXPLANATIONS_def)
    ultimately have "\<not> sublist (fst (ERROR_EXPLANATIONS ! 0)) (lower ?msg)"
      by blast
    with first show ?thesis by contradiction
  qed
qed

section \<open>Status updates\<close>

lemma update_invalid_status:
  "(\<exists>msg. update_log_status db i s = Inl (ValueError msg)) \<longleftrightarrow> s \<notin> set valid_statuses"
  by (auto simp: update_log_status_def Let_def)

lemma update_valid_result:
  assumes "s \<in> set valid_statuses" and "int64 i"
  shows "\<exists>db'. update_log_status db i s = Inr (db', \<exists>r \<in> set (error_logs db). log_id r = i)"
  using assms by (auto simp: update_log_status_def Let_def filter_empty_conv)

lemma update_overflow:
  assumes "s \<in> set valid_statuses" and "\<not> int64 i"
  shows "update_log_status db i s = Inl OverflowError"
  using assms by (simp add: update_log_status_def)

text \<open>
  C4, as the code has it. \<open>update_log_status\<close> raises \<open>ValueError\<close> exactly when the new
  status is not one of \<open>unresolved\<close>, \<open>resolved\<close>, \<open>dismissed\<close>. With a valid status and
  an id that fits a signed 64-bit integer it returns whether some stored record has that id.
  With a valid status and an id outside that range the parameter binding raises
  \<open>OverflowError\<close>.
\<close>

theorem update_log_status_result:
  "((\<exists>msg. update_log_status db i s = Inl (ValueError msg)) \<longleftrightarrow>
      s \<notin> {''unresolved'', ''resolved'', ''dismissed''})
   \<and> (s \<in> {''unresolved'', ''resolved'', ''dismissed''} \<and> - (2 ^ 63) \<le> i \<and> i < 2 ^ 63 \<longrightarrow>
        (\<exists>db'. update_log_status db i s = Inr (db', \<exists>r \<in> set (error_logs db). log_id r = i)))
   \<and> (s \<in> {''unresolved'', ''resolved'', ''dismissed''} \<and> (i < - (2 ^ 63) \<or> 2 ^ 63 \<le> i) \<longrightarrow>
        update_log_status db i s = Inl OverflowError)"
proof (intro conjI impI)
  show "(\<exists>msg. update_log_status db i s = Inl (ValueError msg)) \<longleftrightarrow>
      s \<notin> {''unresolved'', ''resolved'', ''dismissed''}"
    using update_invalid_status [of db i s] by (simp add: valid_statuses_def)
next
  assume "s \<in> {''unresolved'', ''resolved'', ''dismissed''} \<and> - (2 ^ 63) \<le> i \<and> i < 2 ^ 63"
  then have "s \<in> set valid_statuses" and "int64 i"
    by (simp_all add: valid_statuses_def int64_def)
  then show "\<exists>db'. update_log_status db i s = Inr (db', \<exists>r \<in> set (error_logs db). log_id r = i)"
    by (rule update_valid_result)
next
  assume "s \<in> {''unresolved'', ''resolved'', ''dismissed''} \<and> (i < - (2 ^ 63) \<or> 2 ^ 63 \<le> i)"
  then have "s \<in> set valid_statuses" and "\<not> int64 i"
    by (auto simp: valid_statuses_def int64_def)
  then show "update_log_status db i s = Inl OverflowError"
    by (rule update_overflow)
qed

text \<open>
  C4 at concrete inputs: id 9999 on the empty store gives \<open>False\<close>, the id of a stored
  record gives \<open>True\<close>, and the status \<open>bogus\<close> is refused.
\<close>

theorem update_log_status_result_witness:
  "update_log_status (init_db None) 9999 ''resolved'' = Inr (init_db None, False)
   \<and> (\<exists>db'. update_log_status (fst (insert_error_log (init_db None) 7 ''zap'' ''boom'' None)) 1 ''resolved''
         = Inr (db', True))
   \<and> (\<exists>msg. update_log_status (init_db None) 1 ''bogus'' = Inl (ValueError msg))"
proof -
  let ?V = "{''unresolved'', ''resolved'', ''dismissed''}"
  let ?db = "fst (insert_error_log (init_db None) 7 ''zap'' ''boom'' None)"
  have valid: "''resolved'' \<in> ?V" and bogus: "''bogus'' \<notin> ?V"
    by simp_all
  have r1: "(9999::int) \<ge> - (2 ^ 63) \<and> (9999::int) < 2 ^ 63" and r2: "(1::int) \<ge> - (2 ^ 63) \<and> (1::int) < 2 ^ 63"
    by simp_all
  have none: "\<not> (\<exists>r \<in> set (error_logs (init_db None)). log_id r = 9999)"
    by (simp add: init_db_def)
  have some: "\<exists>r \<in> set (error_logs ?db). log_id r = 1"
    by (simp add: init_db_def insert_error_log_def unique_conflict_def new_rowid_def)
  have a: "update_log_status (init_db None) 9999 ''resolved'' = Inr (init_db None, False)"
    using update_log_status_result [of "init_db None" 9999 "''resolved''"] valid r1 none
    by (auto simp: update_log_status_def init_db_def valid_statuses_def int64_def)
  have b: "\<exists>db'. update_log_status ?db 1 ''resolved'' = Inr (db', True)"
    using update_log_status_result [of ?db 1 "''resolved''"] valid r2 some
    by simp
  have c: "\<exists>msg. update_log_status (init_db None) 1 ''bogus'' = Inl (ValueError msg)"
    using update_log_status_result [of "init_db None" 1 "''bogus''"] bogus
    by simp
  from a b c show ?thesis by blast
qed

text \<open>
  C4 as stated (for every id) fails: with the valid status \<open>resolved\<close> and the unknown id
  \<open>2^63\<close> the call does not return \<open>False\<close>, it raises \<open>OverflowError\<close>.
\<close>

theorem update_log_status_huge_id:
  "update_log_status (init_db None) (2 ^ 63) ''resolved'' = Inl OverflowError
   \<and> update_log_status (init_db None) (2 ^ 63) ''resolved'' \<noteq> Inr (init_db None, False)"
  by (simp add: update_log_status_def valid_statuses_def int64_def)

section \<open>Only the status of a record is ever updated\<close>

lemma update_rows:
  assumes "update_log_status db i s = Inr (db', b)"
  shows "error_logs db' = map (\<lambda>r. if log_id r = i then r\<lparr>status := s\<rparr> else r) (error_logs db)"
    and "sqlite_sequence db' = sqlite_sequence db"
  using assms by (auto simp: update_log_status_def Let_def split: if_splits)

lemma insert_keeps_rows:
  "prefix (error_logs db) (error_logs (fst (insert_error_log db now z m e)))"
  by (simp add: insert_error_log_def Let_def)

lemma insert_result:
  "insert_error_log db now z m e = (db, - 1) \<or>
   (\<exists>r. error_logs (fst (insert_error_log db now z m e)) = error_logs db @ [r] \<and>
        timestamp r = now \<and> zap_name r = z \<and> error_message r = m)"
  by (simp add: insert_error_log_def Let_def)

lemma call_insert_result:
  assumes "call_insert_error_log db now zv mv ev = Inr (db', i)"
  shows "db' = db \<or> (\<exists>r. error_logs db' = error_logs db @ [r] \<and> timestamp r = now)"
proof -
  from assms consider "db' = db" | z m e where "insert_error_log db now z m e = (db', i)"
    by (auto simp: call_insert_error_log_def split: sum.splits option.splits)
  then show ?thesis
  proof cases
    case 1
    then show ?thesis by simp
  next
    case 2
    with insert_result [of db now z m e] show ?thesis by auto
  qed
qed

lemma zapier_try_stores:
  assumes "zapier_try db now payload = Inr (db', resp)"
  shows "db' = db \<or> (\<exists>r. error_logs db' = error_logs db @ [r] \<and> timestamp r = now)"
proof -
  from assms obtain zv mv ev i where "call_insert_error_log db now zv mv ev = Inr (db', i)"
    by (auto simp: zapier_try_def Let_def split: if_splits sum.splits prod.splits)
  then show ?thesis by (rule call_insert_result)
qed

lemma receive_zapier_payload_stores:
  "fst (receive_zapier_payload db now payload) = db
   \<or> (\<exists>r. error_logs (fst (receive_zapier_payload db now payload)) = error_logs db @ [r]
          \<and> timestamp r = now)"
proof (cases "zapier_try db now payload")
  case (Inl e)
  then show ?thesis by (simp add: receive_zapier_payload_def)
next
  case (Inr p)
  then obtain db' resp where "zapier_try db now payload = Inr (db', resp)"
    by (cases p) simp
  with zapier_try_stores [OF this] show ?thesis
    by (simp add: receive_zapier_payload_def)
qed

lemma receive_zapier_payload_keeps_rows:
  "prefix (error_logs db) (error_logs (fst (receive_zapier_payload db now payload)))"
  using receive_zapier_payload_stores [of db now payload] by auto

lemma create_error_log_keeps_rows:
  "prefix (error_logs db) (error_logs (fst (create_error_log db now error)))"
proof (cases error)
  case (ErrorLogCreate z m e)
  have "\<exists>expl. fst (create_error_log db now error) = fst (insert_error_log db now z m (Some expl))"
    by (auto simp: ErrorLogCreate Let_def case_prod_beta)
  then show ?thesis
    by (auto simp: insert_keeps_rows)
qed

text \<open>
  C5. A successful \<open>update_log_status\<close> keeps the number and the order of the records, keeps
  the id, zap name, error message, explanation and timestamp of every record, and keeps
  every record with another id as it is. The other operations change no stored record:
  an insert, and so each of the two ingestion endpoints, only appends (the old records are
  a prefix of the new ones), clearing leaves no record, \<open>init_db\<close> keeps an existing
  table, and the two listings are functions of the store that return no new store.
\<close>

theorem only_status_is_updated:
  "(update_log_status db i s = Inr (db', b) \<longrightarrow>
      length (error_logs db') = length (error_logs db) \<and>
      (\<forall>k < length (error_logs db).
         log_id (error_logs db' ! k) = log_id (error_logs db ! k) \<and>
         zap_name (error_logs db' ! k) = zap_name (error_logs db ! k) \<and>
         error_message (error_logs db' ! k) = error_message (error_logs db ! k) \<and>
         explanation (error_logs db' ! k) = explanation (error_logs db ! k) \<and>
         timestamp (error_logs db' ! k) = timestamp (error_logs db ! k) \<and>
         (log_id (error_logs db ! k) \<noteq> i \<longrightarrow> error_logs db' ! k = error_logs db ! k)))
   \<and> prefix (error_logs db) (error_logs (fst (insert_error_log db now z m e)))
   \<and> prefix (error_logs db) (error_logs (fst (receive_zapier_payload db now payload)))
   \<and> prefix (error_logs db) (error_logs (fst (create_error_log db now error)))
   \<and> error_logs (fst (clear_all_logs db)) = []
   \<and> init_db (Some db) = db"
proof (intro conjI impI)
  assume u: "update_log_status db i s = Inr (db', b)"
  show "length (error_logs db') = length (error_logs db)"
    by (simp add: update_rows(1) [OF u])
  show "\<forall>k < length (error_logs db).
         log_id (error_logs db' ! k) = log_id (error_logs db ! k) \<and>
         zap_name (error_logs db' ! k) = zap_name (error_logs db ! k) \<and>
         error_message (error_logs db' ! k) = error_message (error_logs db ! k) \<and>
         explanation (error_logs db' ! k) = explanation (error_logs db ! k) \<and>
         timestamp (error_logs db' ! k) = timestamp (error_logs db ! k) \<and>
         (log_id (error_logs db ! k) \<noteq> i \<longrightarrow> error_logs db' ! k = error_logs db ! k)"
    by (simp add: update_rows(1) [OF u])
next
  show "prefix (error_logs db) (error_logs (fst (insert_error_log db now z m e)))"
    by (rule insert_keeps_rows)
  show "prefix (error_logs db) (error_logs (fst (receive_zapier_payload db now payload)))"
    by (rule receive_zapier_payload_keeps_rows)
  show "prefix (error_logs db) (error_logs (fst (create_error_log db now error)))"
    by (rule create_error_log_keeps_rows)
  show "error_logs (fst (clear_all_logs db)) = []"
    by (simp add: clear_all_logs_def)
  show "init_db (Some db) = db"
    by (simp add: init_db_def)
qed

text \<open>
  C5 on a store of two records: resolving record 2 changes its status and nothing else.
\<close>

theorem only_status_is_updated_witness:
  "update_log_status
     \<lparr>error_logs =
        [\<lparr>log_id = 1, zap_name = ''a'', error_message = ''x'', explanation = None,
           timestamp = 5, status = ''unresolved''\<rparr>,
         \<lparr>log_id = 2, zap_name = ''b'', error_message = ''y'', explanation = Some ''why'',
           timestamp = 9, status = ''unresolved''\<rparr>],
      sqlite_sequence = 2\<rparr> 2 ''resolved''
   = Inr (\<lparr>error_logs =
        [\<lparr>log_id = 1, zap_name = ''a'', error_message = ''x'', explanation = None,
           timestamp = 5, status = ''unresolved''\<rparr>,
         \<lparr>log_id = 2, zap_name = ''b'', error_message = ''y'', explanation = Some ''why'',
           timestamp = 9, status = ''resolved''\<rparr>],
      sqlite_sequence = 2\<rparr>, True)"
proof -
  let ?r1 = "\<lparr>log_id = 1, zap_name = ''a'', error_message = ''x'', explanation = None,
           timestamp = 5, status = ''unresolved''\<rparr>"
  let ?r2 = "\<lparr>log_id = 2, zap_name = ''b'', error_message = ''y'', explanation = Some ''why'',
           timestamp = 9, status = ''unresolved''\<rparr>"
  let ?db = "\<lparr>error_logs = [?r1, ?r2], sqlite_sequence = 2\<rparr>"
  obtain db' b where u: "update_log_status ?db 2 ''resolved'' = Inr (db', b)"
    by (simp add: update_log_status_def valid_statuses_def int64_def)
  from only_status_is_updated [of ?db 2 "''resolved''" db' b] u
  have len: "length (error_logs db') = 2"
    and same: "error_logs db' ! 0 = ?r1"
    and kept: "log_id (error_logs db' ! 1) = 2" "zap_name (error_logs db' ! 1) = ''b''"
      "error_message (error_logs db' ! 1) = ''y''" "explanation (error_logs db' ! 1) = Some ''why''"
      "timestamp (error_logs db' ! 1) = 9"
    by (simp_all add: nth_Cons')
  from u len same kept show ?thesis
    by (simp add: update_log_status_def valid_statuses_def int64_def)
qed

section \<open>Clearing the store\<close>

text \<open>
  C7. \<open>clear_all_logs\<close> returns the number of records stored before the call, and
  \<open>get_all_logs\<close> with its default limit then returns the empty list.
\<close>

theorem clear_all_logs_count_and_empty:
  "snd (clear_all_logs db) = int (length (error_logs db))
   \<and> get_all_logs (fst (clear_all_logs db)) 1000 = Inr []"
  by (simp add: clear_all_logs_def get_all_logs_def order_by_timestamp_desc_def int64_def)

section \<open>Duplicate inserts and the uniqueness invariant\<close>

lemma unique_conflict_iff:
  "unique_conflict db z m t \<longleftrightarrow> (z, m, t) \<in> set (map unique_key (error_logs db))"
  by (auto simp: unique_conflict_def unique_key_def)

lemma insert_conflict_afterwards:
  "unique_conflict (fst (insert_error_log db now z m e)) z m now"
  by (simp add: insert_error_log_def Let_def unique_conflict_def)

lemma insert_on_conflict:
  "unique_conflict db z m now \<Longrightarrow> insert_error_log db now z m e = (db, - 1)"
  by (simp add: insert_error_log_def)

lemma insert_keeps_distinct:
  assumes "distinct (map unique_key (error_logs db))"
  shows "distinct (map unique_key (error_logs (fst (insert_error_log db now z m e))))"
  using assms
  by (auto simp: insert_error_log_def Let_def unique_conflict_def unique_key_def)

lemma update_keeps_keys:
  assumes "update_log_status db i s = Inr (db', b)"
  shows "map unique_key (error_logs db') = map unique_key (error_logs db)"
  using assms
  by (auto simp: update_log_status_def Let_def unique_key_def split: if_splits)

lemma reachable_distinct_keys:
  "reachable db \<Longrightarrow> distinct (map unique_key (error_logs db))"
proof (induction rule: reachable.induct)
  case reach_init
  show ?case by (simp add: init_db_def)
next
  case (reach_insert db now z m e)
  then show ?case by (simp add: insert_keeps_distinct)
next
  case (reach_update db i s db' b)
  then show ?case by (simp add: update_keeps_keys)
next
  case (reach_clear db)
  show ?case by (simp add: clear_all_logs_def)
qed

lemma distinct_key_count:
  "distinct (map f xs) \<Longrightarrow> y \<in> set (map f xs) \<Longrightarrow> length (filter (\<lambda>x. f x = y) xs) = 1"
proof (induction xs)
  case Nil
  then show ?case by simp
next
  case (Cons x xs)
  show ?case
  proof (cases "f x = y")
    case True
    from Cons.prems(1) have "f x \<notin> f ` set xs"
      by simp
    with True have "\<forall>x' \<in> set xs. f x' \<noteq> y"
      by (metis imageI)
    then have "filter (\<lambda>x. f x = y) xs = []"
      by (simp add: filter_empty_conv)
    with True show ?thesis by simp
  next
    case False
    with Cons show ?thesis by auto
  qed
qed

text \<open>
  C1. In every reachable store the keys \<open>(zap_name, error_message, timestamp)\<close> of the
  records are pairwise distinct. After an insert, a second insert of the same zap name and
  error message at the same clock reading returns \<open>-1\<close> and leaves the store exactly as
  the first insert left it, with exactly one record for that key.
\<close>

theorem duplicate_insert_rejected:
  assumes "reachable db"
    and "insert_error_log db now z m e1 = (db1, id1)"
    and "insert_error_log db1 now z m e2 = (db2, id2)"
  shows "id2 = - 1 \<and> db2 = db1
    \<and> length (filter (\<lambda>r. zap_name r = z \<and> error_message r = m \<and> timestamp r = now)
                (error_logs db2)) = 1
    \<and> distinct (map unique_key (error_logs db))
    \<and> distinct (map unique_key (error_logs db2))"
proof -
  have db1: "db1 = fst (insert_error_log db now z m e1)"
    using assms(2) by simp
  then have conflict: "unique_conflict db1 z m now"
    by (simp add: insert_conflict_afterwards)
  then have second: "id2 = - 1" "db2 = db1"
    using assms(3) by (simp_all add: insert_on_conflict)
  have "reachable db1"
    unfolding db1 using assms(1) by (rule reach_insert)
  then have d1: "distinct (map unique_key (error_logs db1))"
    by (rule reachable_distinct_keys)
  have "length (filter (\<lambda>r. unique_key r = (z, m, now)) (error_logs db1)) = 1"
    using d1 conflict by (simp only: unique_conflict_iff distinct_key_count)
  then have one: "length (filter (\<lambda>r. zap_name r = z \<and> error_message r = m \<and> timestamp r = now)
                (error_logs db1)) = 1"
    by (simp add: unique_key_def)
  from second one d1 reachable_distinct_keys [OF assms(1)] show ?thesis
    by simp
qed

text \<open>
  C1 on the empty store: the first insert stores record 1, the second one, in the same
  second and with another explanation, returns \<open>-1\<close> and changes nothing.
\<close>

theorem duplicate_insert_rejected_witness:
  "insert_error_log (init_db None) 7 ''zap'' ''boom'' None
     = (\<lparr>error_logs = [\<lparr>log_id = 1, zap_name = ''zap'', error_message = ''boom'',
           explanation = None, timestamp = 7, status = ''unresolved''\<rparr>], sqlite_sequence = 1\<rparr>, 1)
   \<and> insert_error_log \<lparr>error_logs = [\<lparr>log_id = 1, zap_name = ''zap'', error_message = ''boom'',
           explanation = None, timestamp = 7, status = ''unresolved''\<rparr>], sqlite_sequence = 1\<rparr>
        7 ''zap'' ''boom'' (Some ''again'')
     = (\<lparr>error_logs = [\<lparr>log_id = 1, zap_name = ''zap'', error_message = ''boom'',
           explanation = None, timestamp = 7, status = ''unresolved''\<rparr>], sqlite_sequence = 1\<rparr>, - 1)"
proof -
  let ?db1 = "\<lparr>error_logs = [\<lparr>log_id = 1, zap_name = ''zap'', error_message = ''boom'',
           explanation = None, timestamp = 7, status = ''unresolved''\<rparr>], sqlite_sequence = 1\<rparr>"
  have h1: "reachable (init_db None)"
    by (rule reach_init)
  have h2: "insert_error_log (init_db None) 7 ''zap'' ''boom'' None = (?db1, 1)"
    by (simp add: insert_error_log_def init_db_def unique_conflict_def new_rowid_def)
  obtain db2 id2 where h3: "insert_error_log ?db1 7 ''zap'' ''boom'' (Some ''again'') = (db2, id2)"
    by (cases "insert_error_log ?db1 7 ''zap'' ''boom'' (Some ''again'')")
  from duplicate_insert_rejected [OF h1 h2 h3] have "id2 = - 1" "db2 = ?db1"
    by simp_all
  with h2 h3 show ?thesis by simp
qed

section \<open>Listing newest first\<close>

lemma order_by_sorted:
  "sorted_wrt (\<lambda>a b. timestamp b \<le> timestamp a) (order_by_timestamp_desc rows)"
proof -
  have "sorted (map (\<lambda>r. - int (timestamp r)) (order_by_timestamp_desc rows))"
    unfolding order_by_timestamp_desc_def by (rule sorted_sort_key)
  then show ?thesis
    by (simp add: sorted_map)
qed

lemma order_by_mset: "mset (order_by_timestamp_desc rows) = mset rows"
  by (simp add: order_by_timestamp_desc_def)

lemma order_by_length: "length (order_by_timestamp_desc rows) = length rows"
  by (simp add: order_by_timestamp_desc_def)

lemma sorted_wrt_take_drop:
  assumes "sorted_wrt P xs"
  shows "\<forall>a \<in> set (take n xs). \<forall>b \<in> set (drop n xs). P a b"
proof -
  from assms have "sorted_wrt P (take n xs @ drop n xs)"
    by simp
  then show ?thesis
    by (simp only: sorted_wrt_append) blast
qed

lemma get_all_logs_unbounded:
  "- (2 ^ 63) \<le> limit \<Longrightarrow> limit < 0 \<Longrightarrow>
     get_all_logs db limit = Inr (order_by_timestamp_desc (error_logs db))"
  by (simp add: get_all_logs_def int64_def)

text \<open>
  C6, as the code has it. For a limit from \<open>0\<close> to \<open>2^63 - 1\<close>, \<open>get_all_logs\<close> returns
  records in descending order of timestamp, at most \<open>limit\<close> of them and all of them when
  the store holds no more than \<open>limit\<close>; the returned records together with the records
  left out are the stored ones, and no record left out is newer than a returned one.
\<close>

theorem get_all_logs_newest_first:
  assumes "0 \<le> limit" and "limit < 2 ^ 63"
  shows "\<exists>logs rest.
      get_all_logs db limit = Inr logs
    \<and> sorted_wrt (\<lambda>a b. timestamp b \<le> timestamp a) logs
    \<and> int (length logs) \<le> limit
    \<and> length logs = min (nat limit) (length (error_logs db))
    \<and> mset logs + mset rest = mset (error_logs db)
    \<and> (\<forall>a \<in> set logs. \<forall>b \<in> set rest. timestamp b \<le> timestamp a)"
proof -
  let ?rows = "order_by_timestamp_desc (error_logs db)"
  let ?logs = "take (nat limit) ?rows"
  let ?rest = "drop (nat limit) ?rows"
  have "int64 limit"
    using assms by (simp add: int64_def)
  with assms(1) have res: "get_all_logs db limit = Inr ?logs"
    by (simp add: get_all_logs_def)
  have srt: "sorted_wrt (\<lambda>a b. timestamp b \<le> timestamp a) ?logs"
    using order_by_sorted by (rule sorted_wrt_take)
  have len: "length ?logs = min (nat limit) (length (error_logs db))"
    by (simp add: order_by_length min.commute)
  have le: "int (length ?logs) \<le> limit"
    using assms(1) by simp
  have "mset ?logs + mset ?rest = mset ?rows"
    by (simp flip: mset_append)
  then have ms: "mset ?logs + mset ?rest = mset (error_logs db)"
    by (simp only: order_by_mset)
  have newest: "\<forall>a \<in> set ?logs. \<forall>b \<in> set ?rest. timestamp b \<le> timestamp a"
    using order_by_sorted by (rule sorted_wrt_take_drop)
  from res srt le len ms newest show ?thesis
    by blast
qed

text \<open>
  C6 on three records stored at seconds 5, 9 and 7, with limit 2: the records of seconds 9
  and 7 are returned, in that order.
\<close>

theorem get_all_logs_newest_first_witness:
  "(0::int) \<le> 2 \<and> (2::int) < 2 ^ 63 \<and>
   get_all_logs \<lparr>error_logs =
   [\<lparr>log_id = 1, zap_name = ''a'', error_message = ''x'', explanation = None, timestamp = 5, status = ''unresolved''\<rparr>,
    \<lparr>log_id = 2, zap_name = ''b'', error_message = ''y'', explanation = None, timestamp = 9, status = ''resolved''\<rparr>,
    \<lparr>log_id = 3, zap_name = ''c'', error_message = ''z'', explanation = None, timestamp = 7, status = ''unresolved''\<rparr>],
   sqlite_sequence = 3\<rparr> 2 = Inr
   [\<lparr>log_id = 2, zap_name = ''b'', error_message = ''y'', explanation = None, timestamp = 9, status = ''resolved''\<rparr>,
    \<lparr>log_id = 3, zap_name = ''c'', error_message = ''z'', explanation = None, timestamp = 7, status = ''unresolved''\<rparr>]"
proof -
  let ?db = "\<lparr>error_logs =
   [\<lparr>log_id = 1, zap_name = ''a'', error_message = ''x'', explanation = None, timestamp = 5, status = ''unresolved''\<rparr>,
    \<lparr>log_id = 2, zap_name = ''b'', error_message = ''y'', explanation = None, timestamp = 9, status = ''resolved''\<rparr>,
    \<lparr>log_id = 3, zap_name = ''c'', error_message = ''z'', explanation = None, timestamp = 7, status = ''unresolved''\<rparr>],
   sqlite_sequence = 3\<rparr>"
  have h1: "(0::int) \<le> 2" and h2: "(2::int) < 2 ^ 63"
    by simp_all
  from get_all_logs_newest_first [OF h1 h2, of ?db]
  obtain logs where "get_all_logs ?db 2 = Inr logs" and "length logs = 2"
    by auto
  moreover have "get_all_logs ?db 2 = Inr
   [\<lparr>log_id = 2, zap_name = ''b'', error_message = ''y'', explanation = None, timestamp = 9, status = ''resolved''\<rparr>,
    \<lparr>log_id = 3, zap_name = ''c'', error_message = ''z'', explanation = None, timestamp = 7, status = ''unresolved''\<rparr>]"
    by (simp add: get_all_logs_def int64_def order_by_timestamp_desc_def)
  ultimately show ?thesis
    using h1 h2 by simp
qed

text \<open>
  C6 as stated (for every limit) fails: with limit \<open>-1\<close> a store of one record returns
  that record, which is more than \<open>limit\<close> records.
\<close>

theorem get_all_logs_negative_limit:
  "get_all_logs (fst (insert_error_log (init_db None) 7 ''zap'' ''boom'' None)) (- 1)
     = Inr [\<lparr>log_id = 1, zap_name = ''zap'', error_message = ''boom'', explanation = None,
             timestamp = 7, status = ''unresolved''\<rparr>]
   \<and> \<not> int (length [\<lparr>log_id = 1, zap_name = ''zap'', error_message = ''boom'', explanation = None,
             timestamp = 7, status = ''unresolved''\<rparr>]) \<le> - 1"
  by (simp add: get_all_logs_def int64_def order_by_timestamp_desc_def insert_error_log_def
      init_db_def unique_conflict_def new_rowid_def)

section \<open>Exporting an empty selection\<close>

lemma csv_writerow_empty: "csv_writerow [] = [CHR 0x0D, CHR 0x0A]"
  by (simp add: csv_writerow_def)

lemma select_logs_empty:
  assumes "error_logs db = [] \<or>
    (status_q = Some s \<and> s \<noteq> [] \<and> (\<forall>r \<in> set (error_logs db). status r \<noteq> s))"
  shows "select_logs db status_q = Inr []"
  using assms
proof
  assume "error_logs db = []"
  then show ?thesis
    by (simp add: select_logs_def get_all_logs_def get_logs_by_status_def
        order_by_timestamp_desc_def int64_def split: option.splits)
next
  assume a: "status_q = Some s \<and> s \<noteq> [] \<and> (\<forall>r \<in> set (error_logs db). status r \<noteq> s)"
  then have "filter (\<lambda>r. status r = s) (error_logs db) = []"
    by (simp add: filter_empty_conv)
  with a show ?thesis
    by (simp add: select_logs_def get_logs_by_status_def order_by_timestamp_desc_def)
qed

text \<open>
  C9. When the store is empty, or a status filter is given and no record has that status,
  the selection is empty, the field names are the empty list, and the exported CSV is the
  header row of no columns, which is the line terminator alone; it is not the row of the six
  column names.
\<close>

theorem export_empty_has_no_header:
  assumes "error_logs db = [] \<or>
    (status_q = Some s \<and> s \<noteq> [] \<and> (\<forall>r \<in> set (error_logs db). status r \<noteq> s))"
  shows "select_logs db status_q = Inr []
    \<and> csv_fieldnames (map (dict_of_row strftime) []) = []
    \<and> export_logs strftime db status_q ''csv'' = Inr (csv_writerow [])
    \<and> csv_writerow [] = [CHR 0x0D, CHR 0x0A]
    \<and> export_logs strftime db status_q ''csv'' \<noteq> Inr (csv_writerow
         [''id'', ''zap_name'', ''error_message'', ''explanation'', ''timestamp'', ''status''])"
proof -
  have sel: "select_logs db status_q = Inr []"
    using assms by (rule select_logs_empty)
  have names: "csv_fieldnames (map (dict_of_row strftime) []) = []"
    by (simp add: csv_fieldnames_def)
  have out: "export_logs strftime db status_q ''csv'' = Inr (csv_writerow [])"
    by (simp add: export_logs_def sel csv_fieldnames_def)
  have "csv_writerow [''id'', ''zap_name'', ''error_message'', ''explanation'', ''timestamp'', ''status'']
      \<noteq> csv_writerow []"
    by (simp add: csv_writerow_def csv_field_def)
  with sel names out csv_writerow_empty show ?thesis
    by simp
qed

text \<open>
  C9 on the empty store without a filter, and on a store of one unresolved record with the
  filter \<open>dismissed\<close>.
\<close>

theorem export_empty_has_no_header_witness:
  "export_logs (\<lambda>t. ''1970-01-01 00:00:00'') (init_db None) None ''csv'' = Inr [CHR 0x0D, CHR 0x0A]
   \<and> export_logs (\<lambda>t. ''1970-01-01 00:00:00'')
        (fst (insert_error_log (init_db None) 7 ''zap'' ''boom'' None)) (Some ''dismissed'') ''csv''
      = Inr [CHR 0x0D, CHR 0x0A]"
proof -
  let ?db = "fst (insert_error_log (init_db None) 7 ''zap'' ''boom'' None)"
  have h1: "error_logs (init_db None) = [] \<or>
    (None = Some ''dismissed'' \<and> ''dismissed'' \<noteq> [] \<and> (\<forall>r \<in> set (error_logs (init_db None)). status r \<noteq> ''dismissed''))"
    by (simp add: init_db_def)
  have h2: "error_logs ?db = [] \<or>
    (Some ''dismissed'' = Some ''dismissed'' \<and> ''dismissed'' \<noteq> [] \<and> (\<forall>r \<in> set (error_logs ?db). status r \<noteq> ''dismissed''))"
    by (simp add: init_db_def insert_error_log_def unique_conflict_def new_rowid_def)
  from export_empty_has_no_header [OF h1] export_empty_has_no_header [OF h2]
  show ?thesis by simp
qed

text \<open>A selection that is not empty starts with the row of the six column names.\<close>

lemma export_nonempty_header:
  assumes "select_logs db status_q = Inr (r # rs)"
  shows "\<exists>body. export_logs strftime db status_q ''csv''
     = Inr (''id,zap_name,error_message,explanation,timestamp,status'' @ [CHR 0x0D, CHR 0x0A] @ body)"
  by (simp add: export_logs_def assms csv_fieldnames_def dict_of_row_def csv_writerow_def
      csv_field_def Let_def)

section \<open>The webhook endpoint\<close>

lemma zapier_try_ignores_timestamp:
  "zapier_try db now (payload(''timestamp'' := t)) = zapier_try db now payload"
  by (simp add: zapier_try_def dict_get_def Let_def)

text \<open>
  C10. The \<open>timestamp\<close> entry of the payload has no effect: setting it to any value, or
  removing it, changes neither the response nor the resulting store. A request either
  leaves the store as it is or appends one record, whose timestamp is the clock reading of
  the insert.
\<close>

theorem zapier_timestamp_ignored:
  "receive_zapier_payload db now (payload(''timestamp'' := t)) = receive_zapier_payload db now payload
   \<and> (fst (receive_zapier_payload db now payload) = db
      \<or> (\<exists>r. error_logs (fst (receive_zapier_payload db now payload)) = error_logs db @ [r]
              \<and> timestamp r = now))"
proof
  show "receive_zapier_payload db now (payload(''timestamp'' := t)) = receive_zapier_payload db now payload"
    by (simp add: receive_zapier_payload_def zapier_try_ignores_timestamp)
next
  show "fst (receive_zapier_payload db now payload) = db
      \<or> (\<exists>r. error_logs (fst (receive_zapier_payload db now payload)) = error_logs db @ [r]
              \<and> timestamp r = now)"
    by (rule receive_zapier_payload_stores)
qed

text \<open>
  C10 on the empty store at second 7: a payload that carries a timestamp of 1999 gets the
  response and the record of the payload without one, and the record is stamped 7.
\<close>

theorem zapier_timestamp_ignored_witness:
  "receive_zapier_payload (init_db None) 7
     [''zap_name'' \<mapsto> PStr ''zap'', ''error_message'' \<mapsto> PStr ''Rate limit hit'',
      ''timestamp'' \<mapsto> PStr ''1999-12-31 23:59:59'']
   = receive_zapier_payload (init_db None) 7
     [''zap_name'' \<mapsto> PStr ''zap'', ''error_message'' \<mapsto> PStr ''Rate limit hit'']
   \<and> receive_zapier_payload (init_db None) 7
     [''zap_name'' \<mapsto> PStr ''zap'', ''error_message'' \<mapsto> PStr ''Rate limit hit'']
   = (\<lparr>error_logs = [\<lparr>log_id = 1, zap_name = ''zap'', error_message = ''Rate limit hit'',
         explanation = Some ''API rate limit reached'', timestamp = 7, status = ''unresolved''\<rparr>],
       sqlite_sequence = 1\<rparr>, Inr (Response 201 (PDict [(''id'', PInt 1)])))"
proof -
  let ?p = "[''zap_name'' \<mapsto> PStr ''zap'', ''error_message'' \<mapsto> PStr ''Rate limit hit'']"
  have "receive_zapier_payload (init_db None) 7 (?p(''timestamp'' := Some (PStr ''1999-12-31 23:59:59'')))
      = receive_zapier_payload (init_db None) 7 ?p"
    using zapier_timestamp_ignored [of "init_db None" 7 ?p "Some (PStr ''1999-12-31 23:59:59'')"]
    by simp
  moreover have "receive_zapier_payload (init_db None) 7 ?p
   = (\<lparr>error_logs = [\<lparr>log_id = 1, zap_name = ''zap'', error_message = ''Rate limit hit'',
         explanation = Some ''API rate limit reached'', timestamp = 7, status = ''unresolved''\<rparr>],
       sqlite_sequence = 1\<rparr>, Inr (Response 201 (PDict [(''id'', PInt 1)])))"
    by (simp add: receive_zapier_payload_def zapier_try_def dict_get_def call_insert_error_log_def
        insert_error_log_def init_db_def unique_conflict_def new_rowid_def explain_error_def
        ERROR_EXPLANATIONS_def lower_def lower_char_def)
  ultimately show ?thesis by simp
qed

text \<open>
  A payload whose \<open>zap_name\<close> or \<open>error_message\<close> is missing or falsy raises the
  \<open>HTTPException\<close> with status 400 inside the \<open>try\<close> block; the \<open>except Exception\<close>
  clause catches it and raises the one with status 500. The store is not written.
\<close>

lemma zapier_missing_fields:
  assumes "\<not> truthy (dict_get payload ''zap_name'') \<or> \<not> truthy (dict_get payload ''error_message'')"
  shows "receive_zapier_payload db now payload =
     (db, Inl (HTTPException 500 (StrOf (HTTPException 400 (Detail ''Missing zap_name or error_message'')))))"
  using assms by (auto simp: receive_zapier_payload_def zapier_try_def Let_def)

text \<open>
  C3 does not hold of the code: the empty payload, and a payload with an empty
  \<open>error_message\<close>, are answered with status 500, not 400.
\<close>

theorem zapier_missing_fields_answer_500:
  "receive_zapier_payload (init_db None) 7 Map.empty =
     (init_db None,
      Inl (HTTPException 500 (StrOf (HTTPException 400 (Detail ''Missing zap_name or error_message'')))))
   \<and> status_code (snd (receive_zapier_payload (init_db None) 7 Map.empty)) = 500
   \<and> status_code (snd (receive_zapier_payload (init_db None) 7
        [''zap_name'' \<mapsto> PStr ''zap'', ''error_message'' \<mapsto> PStr []])) = 500"
  by (simp add: zapier_missing_fields dict_get_def)

section \<open>Empty names and messages\<close>

text \<open>
  The webhook endpoint stores no empty zap name or error message: both values are truthy
  when the insert is reached, and the text bound for a truthy value is not empty.
\<close>

lemma digits_nonempty: "digits n \<noteq> []"
  by (subst digits.simps) simp

lemma bind_text_truthy_nonempty:
  assumes "bind_text v = Inr (Some s)" and "truthy v"
  shows "s \<noteq> []"
  using assms by (cases v) (auto simp: str_int_def digits_nonempty split: if_splits)

lemma zapier_stores_nonempty:
  "fst (receive_zapier_payload db now payload) = db
   \<or> (\<exists>r. error_logs (fst (receive_zapier_payload db now payload)) = error_logs db @ [r]
          \<and> zap_name r \<noteq> [] \<and> error_message r \<noteq> [])"
proof (cases "zapier_try db now payload")
  case (Inl e)
  then show ?thesis by (simp add: receive_zapier_payload_def)
next
  case (Inr p)
  obtain db' resp where p: "p = (db', resp)"
    by (cases p)
  let ?zv = "dict_get payload ''zap_name''" and ?mv = "dict_get payload ''error_message''"
  from Inr p have t: "truthy ?zv" "truthy ?mv"
    by (auto simp: zapier_try_def Let_def split: if_splits)
  with Inr p obtain ex i where c: "call_insert_error_log db now ?zv ?mv (PStr ex) = Inr (db', i)"
    by (auto simp: zapier_try_def Let_def split: if_splits sum.splits)
  then obtain z m where b: "bind_text ?zv = Inr z" "bind_text ?mv = Inr m"
    by (auto simp: call_insert_error_log_def split: sum.splits)
  show ?thesis
  proof (cases "\<exists>zt mt. z = Some zt \<and> m = Some mt")
    case False
    with c b have "db' = db"
      by (auto simp: call_insert_error_log_def split: option.splits)
    with Inr p show ?thesis by (simp add: receive_zapier_payload_def)
  next
    case True
    then obtain zt mt where zm: "z = Some zt" "m = Some mt"
      by blast
    with b t have ne: "zt \<noteq> []" "mt \<noteq> []"
      by (auto dest: bind_text_truthy_nonempty)
    from c b zm have ins: "insert_error_log db now zt mt (Some ex) = (db', i)"
      by (simp add: call_insert_error_log_def)
    from insert_result [of db now zt mt "Some ex"] ins ne
    have "db' = db \<or> (\<exists>r. error_logs db' = error_logs db @ [r] \<and> zap_name r \<noteq> [] \<and> error_message r \<noteq> [])"
      by auto
    with Inr p show ?thesis by (simp add: receive_zapier_payload_def)
  qed
qed

text \<open>
  C8 does not hold of the code: \<open>POST /api/errors\<close> with two empty strings stores a
  record whose zap name and error message are empty, and answers 201.
\<close>

theorem create_error_log_stores_empty_strings:
  "create_error_log (init_db None) 7 (ErrorLogCreate [] [] None) =
     (\<lparr>error_logs = [\<lparr>log_id = 1, zap_name = [], error_message = [],
          explanation = Some ''No specific explanation available'', timestamp = 7,
          status = ''unresolved''\<rparr>], sqlite_sequence = 1\<rparr>,
      Inr (Response 201 (PDict [(''id'', PInt 1)])))"
  by (simp add: insert_error_log_def init_db_def unique_conflict_def new_rowid_def explain_error_def
        ERROR_EXPLANATIONS_def lower_def)

end
